theory Spec2Isabelle
  imports Main "HOL-Library.AList" "HOL-Library.Multiset"
begin

section \<open>Personalised problem annotation and weak-field recommendation\<close>

text \<open>
  A shallow embedding of \<^verbatim>\<open>src/problem/views/oj.py\<close>: the two
  \<^verbatim>\<open>_add_problem_status\<close> methods (\<^verbatim>\<open>ProblemAPI\<close>, \<^verbatim>\<open>ContestProblemAPI\<close>),
  \<^verbatim>\<open>get_user_solved_problems\<close> and \<^verbatim>\<open>AIRecommendProblemAPI.get\<close>.

  Python dicts are association lists in insertion order: \<open>map_of d k\<close> is \<^verbatim>\<open>d.get(k)\<close>,
  \<open>AList.update k v d\<close> is \<^verbatim>\<open>d[k] = v\<close> (an existing key keeps its place, a new key goes
  to the end). Python's integers are \<open>int\<close>. An exception that leaves a function is the
  \<open>Inl\<close> of its result.
\<close>

subsection \<open>Exceptions and subscripts\<close>

datatype error =
    DoesNotExist      \<comment> \<open>\<^verbatim>\<open>UserProfile.DoesNotExist\<close>\<close>
  | KeyError string   \<comment> \<open>\<^verbatim>\<open>d[k]\<close> on a missing key\<close>
  | ValueError        \<comment> \<open>\<^verbatim>\<open>random.sample\<close> asked for more than the population holds\<close>
  | TypeError         \<comment> \<open>a query on the profile table for the anonymous user\<close>

text \<open>\<^verbatim>\<open>d[k]\<close>: raises on a missing key.\<close>

definition getitem :: "(string \<times> 'v) list \<Rightarrow> string \<Rightarrow> error + 'v" where
  "getitem d k = (case map_of d k of None \<Rightarrow> Inl (KeyError k) | Some v \<Rightarrow> Inr v)"

text \<open>\<^verbatim>\<open>str(n)\<close> on an integer: its decimal digits, with a minus sign when negative.\<close>

fun str_nat :: "nat \<Rightarrow> string" where
  "str_nat n =
     (if n < 10 then [''0123456789'' ! n]
      else str_nat (n div 10) @ [''0123456789'' ! (n mod 10)])"

declare str_nat.simps [simp del]

definition str :: "int \<Rightarrow> string" where
  "str i = (if i < 0 then CHR ''-'' # str_nat (nat (- i)) else str_nat (nat i))"

subsection \<open>Profile data\<close>

text \<open>
  One entry of a progress dict, \<^verbatim>\<open>{"_id": ..., "status": ...}\<close>. Either key may be missing
  from the stored JSON; \<open>rec_id\<close> is the key \<^verbatim>\<open>"_id"\<close>. A status is a
  \<^verbatim>\<open>JudgeStatus\<close> number.
\<close>

record ProgressRecord =
  rec_id :: "string option"
  status :: "int option"

type_synonym ProgressMap = "(string \<times> ProgressRecord) list"

text \<open>
  \<^verbatim>\<open>acm_problems_status\<close> and \<^verbatim>\<open>oi_problems_status\<close>: a dict with the optional keys
  \<^verbatim>\<open>"problems"\<close> (global scope) and \<^verbatim>\<open>"contest_problems"\<close> (contest scope).
\<close>

record ProblemsStatus =
  problems :: "ProgressMap option"
  contest_problems :: "ProgressMap option"

record UserProfile =
  acm_problems_status :: ProblemsStatus
  oi_problems_status :: ProblemsStatus
  field_score :: "(string \<times> int) list"

text \<open>
  \<^verbatim>\<open>request.user\<close>: the anonymous user, or a user of the user table with the profile row
  that belongs to it, \<open>None\<close> when there is none. Only a user of the table is
  authenticated. \<open>userprofile\<close> is \<^verbatim>\<open>request.user.userprofile\<close>; the source reads it of an
  authenticated user only.
\<close>

datatype user = AnonymousUser | User "UserProfile option"

fun is_authenticated :: "user \<Rightarrow> bool" where
  "is_authenticated AnonymousUser = False"
| "is_authenticated (User p) = True"

fun userprofile :: "user \<Rightarrow> UserProfile option" where
  "userprofile AnonymousUser = None"
| "userprofile (User p) = p"

text \<open>
  \<^verbatim>\<open>UserProfile.objects.get(user=u)\<close>: \<^verbatim>\<open>DoesNotExist\<close> for a user without a profile row;
  the anonymous user is no value of the column and the query raises \<^verbatim>\<open>TypeError\<close>.
\<close>

definition UserProfile_objects_get :: "user \<Rightarrow> error + UserProfile" where
  "UserProfile_objects_get u =
     (if is_authenticated u then
        (case userprofile u of None \<Rightarrow> Inl DoesNotExist | Some profile \<Rightarrow> Inr profile)
      else Inl TypeError)"

subsection \<open>Status annotation\<close>

text \<open>\<^verbatim>\<open>ProblemRuleType\<close> and \<^verbatim>\<open>ContestRuleType\<close>: both have the two values ACM and OI.\<close>

datatype RuleType = ACM | OI

text \<open>A serialised problem, the dict the annotation writes \<^verbatim>\<open>"my_status"\<close> into
  (\<open>None\<close>: the key is unset or null).\<close>

record ProblemData =
  problem_id :: int
  rule_type :: RuleType
  my_status :: "int option"

text \<open>
  The argument of \<^verbatim>\<open>ProblemAPI._add_problem_status\<close>: the dict of a page, which has
  the key \<^verbatim>\<open>"results"\<close> (the problems of the page) beside the total count, or the dict
  of one problem, where \<^verbatim>\<open>queryset_values.get("results")\<close> is \<^verbatim>\<open>None\<close>.
\<close>

datatype queryset_values =
    Paginated "ProblemData list" nat
  | Detail ProblemData

text \<open>\<^verbatim>\<open>d.get(key, {})\<close> on an optional sub-dict.\<close>

definition get_or_empty :: "ProgressMap option \<Rightarrow> ProgressMap" where
  "get_or_empty m = (case m of None \<Rightarrow> [] | Some d \<Rightarrow> d)"

text \<open>\<^verbatim>\<open>problems_status.get(str(problem["id"]), {}).get("status")\<close>\<close>

definition get_status :: "ProgressMap \<Rightarrow> int \<Rightarrow> int option" where
  "get_status problems_status i =
     (case map_of problems_status (str i) of None \<Rightarrow> None | Some r \<Rightarrow> status r)"

text \<open>The body of the loop of \<^verbatim>\<open>ProblemAPI._add_problem_status\<close>.\<close>

definition set_my_status :: "ProgressMap \<Rightarrow> ProgressMap \<Rightarrow> ProblemData \<Rightarrow> ProblemData" where
  "set_my_status acm_status oi_status problem =
     (if rule_type problem = ACM
      then problem\<lparr>my_status := get_status acm_status (problem_id problem)\<rparr>
      else problem\<lparr>my_status := get_status oi_status (problem_id problem)\<rparr>)"

text \<open>
  \<^verbatim>\<open>ProblemAPI._add_problem_status\<close>. The source mutates the dicts in place and returns
  nothing; the model returns the argument as it is after the call. When
  \<^verbatim>\<open>queryset_values.get("results")\<close> is not \<^verbatim>\<open>None\<close> the loop runs over the page's
  problems; otherwise \<^verbatim>\<open>problems = [queryset_values, ]\<close> and the loop runs once, on the
  dict itself.
\<close>

definition ProblemAPI_add_problem_status :: "user \<Rightarrow> queryset_values \<Rightarrow> error + queryset_values" where
  "ProblemAPI_add_problem_status u qv =
     (if is_authenticated u then
        (case userprofile u of
           None \<Rightarrow> Inl DoesNotExist
         | Some profile \<Rightarrow>
             let acm_status = get_or_empty (problems (acm_problems_status profile));
                 oi_status = get_or_empty (problems (oi_problems_status profile))
             in (case qv of
                   Paginated results tot \<Rightarrow>
                     Inr (Paginated (map (set_my_status acm_status oi_status) results) tot)
                 | Detail problem \<Rightarrow>
                     Inr (Detail (set_my_status acm_status oi_status problem))))
      else Inr qv)"

text \<open>
  \<^verbatim>\<open>ContestProblemAPI._add_problem_status\<close>: \<open>contest_rule\<close> is
  \<^verbatim>\<open>self.contest.rule_type\<close>, and the argument is always a list of problem dicts.
\<close>

definition ContestProblemAPI_add_problem_status ::
  "RuleType \<Rightarrow> user \<Rightarrow> ProblemData list \<Rightarrow> error + ProblemData list" where
  "ContestProblemAPI_add_problem_status contest_rule u qv =
     (if is_authenticated u then
        (case userprofile u of
           None \<Rightarrow> Inl DoesNotExist
         | Some profile \<Rightarrow>
             let problems_status =
                   (if contest_rule = ACM
                    then get_or_empty (contest_problems (acm_problems_status profile))
                    else get_or_empty (contest_problems (oi_problems_status profile)))
             in Inr (map (\<lambda>problem. problem\<lparr>my_status := get_status problems_status (problem_id problem)\<rparr>) qv))
      else Inr qv)"

text \<open>The problems of an argument in order, and their statuses: what a reader of the
  response sees of the annotation.\<close>

fun problems_of :: "queryset_values \<Rightarrow> ProblemData list" where
  "problems_of (Paginated results tot) = results"
| "problems_of (Detail problem) = [problem]"

definition my_statuses :: "error + queryset_values \<Rightarrow> error + int option list" where
  "my_statuses r = (case r of Inl e \<Rightarrow> Inl e | Inr qv \<Rightarrow> Inr (map my_status (problems_of qv)))"

subsection \<open>Solved problems\<close>

text \<open>
  The comprehension of \<^verbatim>\<open>get_user_solved_problems\<close> over \<^verbatim>\<open>solved_problems.items()\<close>:
  \<^verbatim>\<open>v['status']\<close> is read first, \<^verbatim>\<open>v['_id']\<close> only of an accepted entry.
  \<open>ACCEPTED\<close> is \<^verbatim>\<open>JudgeStatus.ACCEPTED\<close>, a constant of \<^verbatim>\<open>submission.models\<close>.
\<close>

fun accepted_ids :: "int \<Rightarrow> ProgressMap \<Rightarrow> error + string list" where
  "accepted_ids ACCEPTED [] = Inr []"
| "accepted_ids ACCEPTED ((k, v) # items) =
     (case status v of
        None \<Rightarrow> Inl (KeyError ''status'')
      | Some s \<Rightarrow>
          if s = ACCEPTED then
            (case rec_id v of
               None \<Rightarrow> Inl (KeyError ''_id'')
             | Some i \<Rightarrow>
                 (case accepted_ids ACCEPTED items of
                    Inl e \<Rightarrow> Inl e
                  | Inr ids \<Rightarrow> Inr (i # ids)))
          else accepted_ids ACCEPTED items)"

definition get_user_solved_problems :: "int \<Rightarrow> user \<Rightarrow> error + string list" where
  "get_user_solved_problems ACCEPTED u =
     (case UserProfile_objects_get u of
        Inl e \<Rightarrow> Inl e
      | Inr profile \<Rightarrow>
          accepted_ids ACCEPTED (get_or_empty (problems (acm_problems_status profile))))"

subsection \<open>Weak-field scan\<close>

text \<open>\<^verbatim>\<open>weak_field\<close> is the integer \<^verbatim>\<open>0\<close> until the loop assigns it a key, a string.\<close>

datatype field_ref = IntField int | StrField string

text \<open>
  The variables of the scan. \<^verbatim>\<open>field_score\<close> is never rebound: it names the dict of the
  fetched profile object from line 149 to the return, so every assignment
  \<^verbatim>\<open>field_score[k] = ...\<close> writes into \<open>profile_obj\<close>.
\<close>

record scan_state =
  profile_obj :: UserProfile
  weak_field :: field_ref
  weak_field_score :: int

text \<open>
  One iteration of \<^verbatim>\<open>for k, v in field_score.items()\<close>. \<^verbatim>\<open>items()\<close> is a view of the
  dict: \<open>v\<close> is what the dict holds under \<open>k\<close> when the iteration reaches \<open>k\<close>.
\<close>

definition scan_step :: "string \<Rightarrow> scan_state \<Rightarrow> error + scan_state" where
  "scan_step k st =
     (case getitem (field_score (profile_obj st)) k of
        Inl e \<Rightarrow> Inl e
      | Inr v \<Rightarrow>
          (case getitem (field_score (profile_obj st)) ''max_score'' of
             Inl e \<Rightarrow> Inl e
           | Inr m \<Rightarrow>
               let c = min v m;
                   profile' = (profile_obj st)
                     \<lparr>field_score := AList.update k c (field_score (profile_obj st))\<rparr>
               in if c < weak_field_score st
                  then Inr \<lparr>profile_obj = profile', weak_field = StrField k, weak_field_score = c\<rparr>
                  else Inr (st\<lparr>profile_obj := profile'\<rparr>)))"

fun scan_loop :: "string list \<Rightarrow> scan_state \<Rightarrow> error + scan_state" where
  "scan_loop [] st = Inr st"
| "scan_loop (k # ks) st =
     (case scan_step k st of Inl e \<Rightarrow> Inl e | Inr st' \<Rightarrow> scan_loop ks st')"

text \<open>
  Lines 150 to 158. \<open>VeryHigh\<close> is \<^verbatim>\<open>ProblemScore.score['VeryHigh']\<close>, a constant of
  \<^verbatim>\<open>utils.constants\<close>. The loop assigns existing keys only, so the keys it visits are
  the keys the dict has when the loop starts.
\<close>

definition weak_field_scan :: "int \<Rightarrow> UserProfile \<Rightarrow> error + scan_state" where
  "weak_field_scan VeryHigh profile =
     (let profile' = profile
            \<lparr>field_score := AList.update ''max_score'' (VeryHigh * 20) (field_score profile)\<rparr>
      in case getitem (field_score profile') ''0'' of
           Inl e \<Rightarrow> Inl e
         | Inr s \<Rightarrow>
             scan_loop (map fst (field_score profile'))
               \<lparr>profile_obj = profile', weak_field = IntField 0, weak_field_score = s\<rparr>)"

subsection \<open>Candidate pool and sampling\<close>

text \<open>
  A row of the problem table: \<open>display_id\<close> is the column \<^verbatim>\<open>_id\<close>, \<open>contest_id\<close> is
  \<open>None\<close> for a problem outside every contest. The model class is not among the sources;
  the column \<^verbatim>\<open>field\<close> is held as the text of the field id.
\<close>

record Problem =
  display_id :: string
  field :: string
  visible :: bool
  contest_id :: "nat option"

text \<open>The value \<^verbatim>\<open>filter(field=weak_field)\<close> compares the column with: the query
  converts the integer \<^verbatim>\<open>0\<close> and the key \<^verbatim>\<open>"0"\<close> to the same column value.\<close>

fun field_value :: "field_ref \<Rightarrow> string" where
  "field_value (IntField i) = str i"
| "field_value (StrField k) = k"

text \<open>\<^verbatim>\<open>Problem.objects.filter(field=weak_field, visible=True).exclude(_id__in=solved)\<close>\<close>

definition unresolved_problems :: "Problem list \<Rightarrow> field_ref \<Rightarrow> string list \<Rightarrow> Problem list" where
  "unresolved_problems catalog fld solved =
     filter (\<lambda>p. display_id p \<notin> set solved)
       (filter (\<lambda>p. field p = field_value fld \<and> visible p) catalog)"

text \<open>
  \<^verbatim>\<open>random.sample(population, k)\<close> of the standard library: \<^verbatim>\<open>ValueError\<close> when
  \<open>k\<close> exceeds the population, otherwise \<open>k\<close> draws, each taking one element out of the
  pool. \<open>rng i\<close> is the random number behind draw \<open>i\<close>.
\<close>

fun sample_loop :: "(nat \<Rightarrow> nat) \<Rightarrow> nat \<Rightarrow> 'a list \<Rightarrow> nat \<Rightarrow> 'a list" where
  "sample_loop rng i pool 0 = []"
| "sample_loop rng i pool (Suc k) =
     (if pool = [] then []
      else let j = rng i mod length pool
           in pool ! j # sample_loop rng (Suc i) (take j pool @ drop (Suc j) pool) k)"

definition random_sample :: "(nat \<Rightarrow> nat) \<Rightarrow> 'a list \<Rightarrow> nat \<Rightarrow> error + 'a list" where
  "random_sample rng population k =
     (if k \<le> length population then Inr (sample_loop rng 0 population k) else Inl ValueError)"

subsection \<open>The recommendation handler\<close>

record 'v RecommendData =
  data_field_score :: "(string \<times> int) list"
  recommend_problems :: "'v list"

text \<open>What a handler answers: data, not-found, or the refusal of the decorator
  \<^verbatim>\<open>login_required\<close>.\<close>

datatype 'v response = Success "'v RecommendData" | HttpResponseNotFound string | LoginRequired

text \<open>
  The body of the \<^verbatim>\<open>try\<close> of \<^verbatim>\<open>AIRecommendProblemAPI.get\<close>. \<open>serializer\<close> is
  \<^verbatim>\<open>RecommendBonusProblemSerializer\<close> on one row, \<open>catalog\<close> the problem table.
\<close>

definition recommend_body ::
  "int \<Rightarrow> int \<Rightarrow> (Problem \<Rightarrow> 'v) \<Rightarrow> (nat \<Rightarrow> nat) \<Rightarrow> Problem list \<Rightarrow> user \<Rightarrow> error + 'v RecommendData" where
  "recommend_body VeryHigh ACCEPTED serializer rng catalog u =
     (case UserProfile_objects_get u of
        Inl e \<Rightarrow> Inl e
      | Inr profile \<Rightarrow>
          (case weak_field_scan VeryHigh profile of
             Inl e \<Rightarrow> Inl e
           | Inr st \<Rightarrow>
               (case get_user_solved_problems ACCEPTED u of
                  Inl e \<Rightarrow> Inl e
                | Inr solved \<Rightarrow>
                    let unresolved = unresolved_problems catalog (weak_field st) solved
                    in (case random_sample rng unresolved (min 3 (length unresolved)) of
                          Inl e \<Rightarrow> Inl e
                        | Inr sampled \<Rightarrow>
                            Inr \<lparr>data_field_score = field_score (profile_obj st),
                                 recommend_problems = map serializer sampled\<rparr>))))"

text \<open>
  Modelled from the spec: the decorator \<^verbatim>\<open>login_required\<close> of \<^verbatim>\<open>account.decorators\<close>,
  which is not among the sources. The recommender is "invoked on demand for an
  authenticated user": for a user who is not authenticated the decorator answers itself
  and the decorated method does not run.
\<close>

definition login_required ::
  "(user \<Rightarrow> error + 'v response) \<Rightarrow> user \<Rightarrow> error + 'v response" where
  "login_required func u = (if is_authenticated u then func u else Inr LoginRequired)"

text \<open>\<^verbatim>\<open>AIRecommendProblemAPI.get\<close> with its decorator (line 146): of the exceptions of
  the body only \<^verbatim>\<open>UserProfile.DoesNotExist\<close> is caught.\<close>

definition AIRecommendProblemAPI_get ::
  "int \<Rightarrow> int \<Rightarrow> (Problem \<Rightarrow> 'v) \<Rightarrow> (nat \<Rightarrow> nat) \<Rightarrow> Problem list \<Rightarrow> user \<Rightarrow> error + 'v response" where
  "AIRecommendProblemAPI_get VeryHigh ACCEPTED serializer rng catalog =
     login_required (\<lambda>u.
       case recommend_body VeryHigh ACCEPTED serializer rng catalog u of
         Inl e \<Rightarrow>
           if e = DoesNotExist then Inr (HttpResponseNotFound ''User does not exist'') else Inl e
       | Inr d \<Rightarrow> Inr (Success d))"

subsection \<open>Observations and reference functions\<close>


definition field_score_after :: "int \<Rightarrow> UserProfile \<Rightarrow> error + (string \<times> int) list" where
  "field_score_after VeryHigh profile =
     (case weak_field_scan VeryHigh profile of
        Inl e \<Rightarrow> Inl e
      | Inr st \<Rightarrow> Inr (field_score (profile_obj st)))"




text \<open>
  The status of a problem in a contest listing as the specification words it: read from
  the contest namespace of the problem's own rule type.
\<close>

definition spec_contest_status :: "UserProfile \<Rightarrow> ProblemData \<Rightarrow> int option" where
  "spec_contest_status profile problem =
     (if rule_type problem = ACM
      then get_status (get_or_empty (contest_problems (acm_problems_status profile))) (problem_id problem)
      else get_status (get_or_empty (contest_problems (oi_problems_status profile))) (problem_id problem))"

text \<open>The candidate of the scan over a list of keys with the scores they are compared at:
  the loop of lines 154 to 158 without the dict.\<close>

fun select_min :: "(string \<times> int) list \<Rightarrow> field_ref \<times> int \<Rightarrow> field_ref \<times> int" where
  "select_min [] cand = cand"
| "select_min ((k, c) # rest) (w, s) = select_min rest (if c < s then (StrField k, c) else (w, s))"

section \<open>Status annotation: what the two methods write\<close>

lemma str_0: "str 0 = ''0''"
  by (simp add: str_def str_nat.simps)

lemma profile_authenticated: "userprofile u = Some profile \<Longrightarrow> is_authenticated u"
  by (cases u) auto

lemma objects_get_profile:
  "userprofile u = Some profile \<Longrightarrow> UserProfile_objects_get u = Inr profile"
  by (cases u) (auto simp: UserProfile_objects_get_def)

lemma objects_get_Inr:
  "UserProfile_objects_get u = Inr profile \<Longrightarrow> userprofile u = Some profile"
  by (cases u) (auto simp: UserProfile_objects_get_def split: option.splits)

lemma objects_get_None:
  "is_authenticated u \<Longrightarrow> userprofile u = None \<Longrightarrow>
   UserProfile_objects_get u = Inl DoesNotExist"
  by (simp add: UserProfile_objects_get_def)

text \<open>
  Claim C5. \<^verbatim>\<open>ProblemAPI._add_problem_status\<close> leaves its argument as it is for a user who
  is not authenticated, so no \<^verbatim>\<open>my_status\<close> is set. For an authenticated user with profile
  \<open>profile\<close> it returns normally, and every problem gets as \<^verbatim>\<open>my_status\<close> the status of
  the record stored under its stringified id in the global namespace of its rule type, or
  null when that namespace has no such record (a missing namespace counts as empty).
\<close>

theorem annotate_status:
  "(\<not> is_authenticated u \<longrightarrow> ProblemAPI_add_problem_status u qv = Inr qv) \<and>
   (is_authenticated u \<longrightarrow> userprofile u = Some profile \<longrightarrow>
      (\<exists>qv'. ProblemAPI_add_problem_status u qv = Inr qv' \<and>
         problems_of qv' =
           map (\<lambda>p. p\<lparr>my_status :=
                  (case map_of (get_or_empty (problems
                           (if rule_type p = ACM then acm_problems_status profile
                            else oi_problems_status profile)))
                         (str (problem_id p)) of
                     None \<Rightarrow> None
                   | Some r \<Rightarrow> status r)\<rparr>)
             (problems_of qv)))"
  by (cases qv)
    (auto simp: ProblemAPI_add_problem_status_def set_my_status_def get_status_def Let_def)

theorem annotate_status_witness:
  "ProblemAPI_add_problem_status AnonymousUser
      (Detail \<lparr>problem_id = 12, rule_type = ACM, my_status = None\<rparr>)
     = Inr (Detail \<lparr>problem_id = 12, rule_type = ACM, my_status = None\<rparr>) \<and>
   (\<exists>qv'. ProblemAPI_add_problem_status
        (User (Some \<lparr>acm_problems_status =
              \<lparr>problems = Some [(''12'', \<lparr>rec_id = Some ''A12'', status = Some 0\<rparr>)],
               contest_problems = None\<rparr>,
            oi_problems_status = \<lparr>problems = None, contest_problems = None\<rparr>,
            field_score = []\<rparr>))
        (Paginated [\<lparr>problem_id = 12, rule_type = ACM, my_status = None\<rparr>,
                    \<lparr>problem_id = 12, rule_type = OI, my_status = None\<rparr>] 2) = Inr qv' \<and>
      problems_of qv' = [\<lparr>problem_id = 12, rule_type = ACM, my_status = Some 0\<rparr>,
                         \<lparr>problem_id = 12, rule_type = OI, my_status = None\<rparr>])"
proof -
  have s12: "str 12 = ''12''" by (simp add: str_def str_nat.simps)
  show ?thesis
    using annotate_status [of "AnonymousUser"
        "Detail \<lparr>problem_id = 12, rule_type = ACM, my_status = None\<rparr>"]
      annotate_status [where u = "(User (Some \<lparr>acm_problems_status =
              \<lparr>problems = Some [(''12'', \<lparr>rec_id = Some ''A12'', status = Some 0\<rparr>)],
               contest_problems = None\<rparr>,
            oi_problems_status = \<lparr>problems = None, contest_problems = None\<rparr>,
            field_score = []\<rparr>))"
        and profile = "\<lparr>acm_problems_status =
              \<lparr>problems = Some [(''12'', \<lparr>rec_id = Some ''A12'', status = Some 0\<rparr>)],
               contest_problems = None\<rparr>,
            oi_problems_status = \<lparr>problems = None, contest_problems = None\<rparr>,
            field_score = []\<rparr>"
        and qv = "Paginated [\<lparr>problem_id = 12, rule_type = ACM, my_status = None\<rparr>,
                    \<lparr>problem_id = 12, rule_type = OI, my_status = None\<rparr>] 2"]
    by (simp add: get_or_empty_def s12)
qed

text \<open>
  Claim C9. One problem passed as a single dict and the same problem passed as a page of
  one element get the same \<^verbatim>\<open>my_status\<close> (or the same exception).
\<close>

theorem shape_invariance:
  "my_statuses (ProblemAPI_add_problem_status u (Detail v)) =
   my_statuses (ProblemAPI_add_problem_status u (Paginated [v] tot))"
  by (simp add: ProblemAPI_add_problem_status_def my_statuses_def Let_def split: option.splits)

text \<open>
  Claim C1, as stated, fails: in an ACM contest an OI problem is read from the ACM contest
  namespace (status 0 below), not from the OI contest namespace of its own rule type
  (status 8).
\<close>

theorem contest_namespace_counterexample:
  "ContestProblemAPI_add_problem_status ACM
     (User (Some \<lparr>acm_problems_status =
           \<lparr>problems = None,
            contest_problems = Some [(''7'', \<lparr>rec_id = Some ''C7'', status = Some 0\<rparr>)]\<rparr>,
         oi_problems_status =
           \<lparr>problems = None,
            contest_problems = Some [(''7'', \<lparr>rec_id = Some ''C7'', status = Some 8\<rparr>)]\<rparr>,
         field_score = []\<rparr>))
     [\<lparr>problem_id = 7, rule_type = OI, my_status = None\<rparr>]
   = Inr [\<lparr>problem_id = 7, rule_type = OI, my_status = Some 0\<rparr>] \<and>
   spec_contest_status
     \<lparr>acm_problems_status =
           \<lparr>problems = None,
            contest_problems = Some [(''7'', \<lparr>rec_id = Some ''C7'', status = Some 0\<rparr>)]\<rparr>,
         oi_problems_status =
           \<lparr>problems = None,
            contest_problems = Some [(''7'', \<lparr>rec_id = Some ''C7'', status = Some 8\<rparr>)]\<rparr>,
         field_score = []\<rparr>
     \<lparr>problem_id = 7, rule_type = OI, my_status = None\<rparr> = Some 8"
  by (simp add: ContestProblemAPI_add_problem_status_def spec_contest_status_def get_status_def
      get_or_empty_def str_def str_nat.simps)

text \<open>
  Claim C1, amended. \<^verbatim>\<open>ContestProblemAPI._add_problem_status\<close> chooses one namespace for
  the whole call, from the rule type of the contest: every problem of the listing reads
  the ACM contest namespace in an ACM contest and the OI contest namespace otherwise,
  whatever its own rule type is (changing the rule types of the problems changes no
  status).
\<close>

theorem contest_namespace_by_contest_rule:
  assumes "is_authenticated u" and "userprofile u = Some profile"
  shows "ContestProblemAPI_add_problem_status contest_rule u qv =
     Inr (map (\<lambda>p. p\<lparr>my_status :=
            get_status (get_or_empty (contest_problems
                (if contest_rule = ACM then acm_problems_status profile
                 else oi_problems_status profile))) (problem_id p)\<rparr>) qv)
   \<and> ContestProblemAPI_add_problem_status contest_rule u (map (\<lambda>p. p\<lparr>rule_type := r p\<rparr>) qv) =
     Inr (map (\<lambda>p. p\<lparr>rule_type := r p, my_status :=
            get_status (get_or_empty (contest_problems
                (if contest_rule = ACM then acm_problems_status profile
                 else oi_problems_status profile))) (problem_id p)\<rparr>) qv)"
  using assms by (simp add: ContestProblemAPI_add_problem_status_def Let_def comp_def)

theorem contest_namespace_by_contest_rule_witness:
  "ContestProblemAPI_add_problem_status OI
     (User (Some \<lparr>acm_problems_status =
           \<lparr>problems = None,
            contest_problems = Some [(''7'', \<lparr>rec_id = Some ''C7'', status = Some 0\<rparr>)]\<rparr>,
         oi_problems_status =
           \<lparr>problems = None,
            contest_problems = Some [(''7'', \<lparr>rec_id = Some ''C7'', status = Some 8\<rparr>)]\<rparr>,
         field_score = []\<rparr>))
     [\<lparr>problem_id = 7, rule_type = ACM, my_status = None\<rparr>]
   = Inr [\<lparr>problem_id = 7, rule_type = ACM, my_status = Some 8\<rparr>]"
proof -
  have s7: "str 7 = ''7''" by (simp add: str_def str_nat.simps)
  show ?thesis
    using contest_namespace_by_contest_rule [of "(User (Some \<lparr>acm_problems_status =
           \<lparr>problems = None,
            contest_problems = Some [(''7'', \<lparr>rec_id = Some ''C7'', status = Some 0\<rparr>)]\<rparr>,
         oi_problems_status =
           \<lparr>problems = None,
            contest_problems = Some [(''7'', \<lparr>rec_id = Some ''C7'', status = Some 8\<rparr>)]\<rparr>,
         field_score = []\<rparr>))"
       "\<lparr>acm_problems_status =
           \<lparr>problems = None,
            contest_problems = Some [(''7'', \<lparr>rec_id = Some ''C7'', status = Some 0\<rparr>)]\<rparr>,
         oi_problems_status =
           \<lparr>problems = None,
            contest_problems = Some [(''7'', \<lparr>rec_id = Some ''C7'', status = Some 8\<rparr>)]\<rparr>,
         field_score = []\<rparr>" OI "[\<lparr>problem_id = 7, rule_type = ACM, my_status = None\<rparr>]"]
    by (simp add: get_status_def get_or_empty_def s7)
qed

section \<open>The recommendation handler: auxiliary facts\<close>

subsection \<open>The loop over the keys\<close>

lemma getitem_Some: "map_of d k = Some v \<Longrightarrow> getitem d k = Inr v"
  by (simp add: getitem_def)

lemma getitem_None: "map_of d k = None \<Longrightarrow> getitem d k = Inl (KeyError k)"
  by (simp add: getitem_def)

lemma scan_step_eq:
  assumes "map_of (field_score (profile_obj st)) k = Some v"
    and "map_of (field_score (profile_obj st)) ''max_score'' = Some m"
  shows "scan_step k st =
    Inr \<lparr>profile_obj = (profile_obj st)\<lparr>field_score := AList.update k (min v m) (field_score (profile_obj st))\<rparr>,
         weak_field = (if min v m < weak_field_score st then StrField k else weak_field st),
         weak_field_score = (if min v m < weak_field_score st then min v m else weak_field_score st)\<rparr>"
  using assms by (simp add: scan_step_def getitem_def Let_def)

lemma scan_loop_run:
  assumes "map_of (field_score (profile_obj st)) ''max_score'' = Some m"
    and "set ks \<subseteq> fst ` set (field_score (profile_obj st))"
  shows "\<exists>st'. scan_loop ks st = Inr st'
     \<and> map fst (field_score (profile_obj st')) = map fst (field_score (profile_obj st))
     \<and> (\<forall>k. map_of (field_score (profile_obj st')) k =
            (if k \<in> set ks then map_option (\<lambda>v. min v m) (map_of (field_score (profile_obj st)) k)
             else map_of (field_score (profile_obj st)) k))
     \<and> acm_problems_status (profile_obj st') = acm_problems_status (profile_obj st)
     \<and> oi_problems_status (profile_obj st') = oi_problems_status (profile_obj st)
     \<and> (weak_field st', weak_field_score st') =
          select_min (map (\<lambda>k. (k, min (the (map_of (field_score (profile_obj st)) k)) m)) ks)
            (weak_field st, weak_field_score st)"
  using assms
proof (induction ks arbitrary: st)
  case Nil
  then show ?case by simp
next
  case (Cons k ks)
  let ?d = "field_score (profile_obj st)"
  from Cons.prems(2) have "k \<in> fst ` set ?d" by simp
  then obtain v where v: "map_of ?d k = Some v"
    by (metis domD dom_map_of_conv_image_fst)
  define c where "c = min v m"
  define st1 where "st1 = \<lparr>profile_obj = (profile_obj st)\<lparr>field_score := AList.update k c ?d\<rparr>,
         weak_field = (if c < weak_field_score st then StrField k else weak_field st),
         weak_field_score = (if c < weak_field_score st then c else weak_field_score st)\<rparr>"
  have step: "scan_step k st = Inr st1"
    using scan_step_eq[OF v Cons.prems(1)] by (simp add: st1_def c_def)
  have d1: "field_score (profile_obj st1) = AList.update k c ?d" by (simp add: st1_def)
  have m1: "map_of (field_score (profile_obj st1)) ''max_score'' = Some m"
    using Cons.prems(1) v by (auto simp: d1 update_conv' c_def)
  have keys1: "map fst (field_score (profile_obj st1)) = map fst ?d"
    using \<open>k \<in> fst ` set ?d\<close> by (simp add: d1 update_keys)
  have sub1: "set ks \<subseteq> fst ` set (field_score (profile_obj st1))"
    using Cons.prems(2) keys1 by (metis list.set_map set_subset_Cons subset_trans)
  from Cons.IH[OF m1 sub1] obtain st' where
    r: "scan_loop ks st1 = Inr st'"
    and k': "map fst (field_score (profile_obj st')) = map fst (field_score (profile_obj st1))"
    and v': "\<forall>k. map_of (field_score (profile_obj st')) k =
            (if k \<in> set ks then map_option (\<lambda>v. min v m) (map_of (field_score (profile_obj st1)) k)
             else map_of (field_score (profile_obj st1)) k)"
    and a': "acm_problems_status (profile_obj st') = acm_problems_status (profile_obj st1)"
    and o': "oi_problems_status (profile_obj st') = oi_problems_status (profile_obj st1)"
    and s': "(weak_field st', weak_field_score st') =
          select_min (map (\<lambda>k. (k, min (the (map_of (field_score (profile_obj st1)) k)) m)) ks)
            (weak_field st1, weak_field_score st1)"
    by blast
  have same: "\<And>k'. min (the (map_of (field_score (profile_obj st1)) k')) m = min (the (map_of ?d k')) m"
    using v by (auto simp: d1 update_conv' c_def)
  have "scan_loop (k # ks) st = Inr st'" using step r by simp
  moreover have "map fst (field_score (profile_obj st')) = map fst ?d" using k' keys1 by simp
  moreover have "\<forall>k'. map_of (field_score (profile_obj st')) k' =
            (if k' \<in> set (k # ks) then map_option (\<lambda>v. min v m) (map_of ?d k') else map_of ?d k')"
    using v' v by (auto simp: d1 update_conv' c_def)
  moreover have "acm_problems_status (profile_obj st') = acm_problems_status (profile_obj st)"
    using a' by (simp add: st1_def)
  moreover have "oi_problems_status (profile_obj st') = oi_problems_status (profile_obj st)"
    using o' by (simp add: st1_def)
  moreover have "(weak_field st', weak_field_score st') =
          select_min (map (\<lambda>k. (k, min (the (map_of ?d k)) m)) (k # ks))
            (weak_field st, weak_field_score st)"
  proof -
    have s2: "(weak_field st', weak_field_score st') =
          select_min (map (\<lambda>k. (k, min (the (map_of ?d k)) m)) ks)
            (weak_field st1, weak_field_score st1)"
      using s' by (simp only: same)
    have w1: "(weak_field st1, weak_field_score st1) =
        (if c < weak_field_score st then (StrField k, c) else (weak_field st, weak_field_score st))"
      by (simp add: st1_def)
    show ?thesis using v by (simp add: s2 w1 c_def)
  qed
  ultimately show ?case by blast
qed


subsection \<open>The scan from its first line\<close>



lemma weak_field_scan_KeyError:
  assumes "map_of (field_score profile) ''0'' = None"
  shows "weak_field_scan VeryHigh profile = Inl (KeyError ''0'')"
  using assms by (simp add: weak_field_scan_def Let_def getitem_def update_conv')

lemma weak_field_scan_run:
  fixes VeryHigh :: int and profile :: UserProfile
  assumes "map_of (field_score profile) ''0'' = Some r0"
  defines "cap \<equiv> VeryHigh * 20"
  defines "d \<equiv> AList.update ''max_score'' cap (field_score profile)"
  shows "\<exists>st. weak_field_scan VeryHigh profile = Inr st
     \<and> map fst (field_score (profile_obj st)) = map fst d
     \<and> (\<forall>k. map_of (field_score (profile_obj st)) k =
            (if k = ''max_score'' then Some cap
             else map_option (\<lambda>v. min v cap) (map_of (field_score profile) k)))
     \<and> acm_problems_status (profile_obj st) = acm_problems_status profile
     \<and> oi_problems_status (profile_obj st) = oi_problems_status profile
     \<and> (weak_field st, weak_field_score st) =
          select_min (map (\<lambda>k. (k, min (the (map_of d k)) cap)) (map fst d)) (IntField 0, r0)"
proof -
  define st0 where "st0 = \<lparr>profile_obj = profile\<lparr>field_score := d\<rparr>,
      weak_field = IntField 0, weak_field_score = r0\<rparr>"
  have d0: "field_score (profile_obj st0) = d" by (simp add: st0_def)
  have g0: "getitem d ''0'' = Inr r0"
    using assms(1) by (simp add: getitem_def d_def update_conv')
  have run: "weak_field_scan VeryHigh profile = scan_loop (map fst d) st0"
    using g0 by (simp add: weak_field_scan_def Let_def st0_def d_def cap_def)
  have m0: "map_of (field_score (profile_obj st0)) ''max_score'' = Some cap"
    by (simp add: d0 d_def update_conv')
  have sub: "set (map fst d) \<subseteq> fst ` set (field_score (profile_obj st0))"
    by (simp add: d0)
  from scan_loop_run[OF m0 sub] obtain st where
    r: "scan_loop (map fst d) st0 = Inr st"
    and ks: "map fst (field_score (profile_obj st)) = map fst (field_score (profile_obj st0))"
    and vs: "\<forall>k. map_of (field_score (profile_obj st)) k =
            (if k \<in> set (map fst d) then map_option (\<lambda>v. min v cap) (map_of (field_score (profile_obj st0)) k)
             else map_of (field_score (profile_obj st0)) k)"
    and a: "acm_problems_status (profile_obj st) = acm_problems_status (profile_obj st0)"
    and o: "oi_problems_status (profile_obj st) = oi_problems_status (profile_obj st0)"
    and s: "(weak_field st, weak_field_score st) =
          select_min (map (\<lambda>k. (k, min (the (map_of (field_score (profile_obj st0)) k)) cap)) (map fst d))
            (weak_field st0, weak_field_score st0)"
    by blast
  have vals: "map_of (field_score (profile_obj st)) k =
            (if k = ''max_score'' then Some cap
             else map_option (\<lambda>v. min v cap) (map_of (field_score profile) k))" for k
  proof (cases "k \<in> set (map fst d)")
    case True
    then show ?thesis using vs by (simp add: d0 d_def update_conv')
  next
    case False
    then have "map_of d k = None" by (simp add: map_of_eq_None_iff)
    moreover have "k \<noteq> ''max_score''" using False by (auto simp: d_def dom_update)
    ultimately show ?thesis using vs False by (simp add: d0) (simp add: d_def update_conv')
  qed
  show ?thesis
    using r ks vals a o s by (simp add: run d0 st0_def)
qed

subsection \<open>The candidate of the scan\<close>







subsection \<open>Sampling and the solved list\<close>

lemma length_sample_loop: "length (sample_loop rng i pool k) = min k (length pool)"
proof (induction k arbitrary: i pool)
  case 0
  then show ?case by simp
next
  case (Suc k)
  show ?case
  proof (cases "pool = []")
    case True
    then show ?thesis by simp
  next
    case False
    then have j: "rng i mod length pool < length pool" by simp
    have lp: "length (take (rng i mod length pool) pool @ drop (Suc (rng i mod length pool)) pool)
        = length pool - 1"
      using j by simp
    have "0 < length pool" using False by simp
    then have "Suc (min k (length pool - 1)) = min (Suc k) (length pool)" by arith
    moreover have "length (sample_loop rng (Suc i)
          (take (rng i mod length pool) pool @ drop (Suc (rng i mod length pool)) pool) k)
        = min k (length pool - 1)"
      by (simp only: Suc.IH lp)
    ultimately show ?thesis using False by (simp only: sample_loop.simps Let_def if_False list.size length_Cons)
  qed
qed

lemma mset_sample_loop: "mset (sample_loop rng i pool k) \<subseteq># mset pool"
proof (induction k arbitrary: i pool)
  case 0
  then show ?case by simp
next
  case (Suc k)
  show ?case
  proof (cases "pool = []")
    case True
    then show ?thesis by simp
  next
    case False
    define j where "j = rng i mod length pool"
    have j: "j < length pool" using False by (simp add: j_def)
    have split: "mset pool = add_mset (pool ! j) (mset (take j pool @ drop (Suc j) pool))"
      using id_take_nth_drop[OF j] by (metis mset.simps(2) mset_append union_mset_add_mset_right)
    have "mset (sample_loop rng (Suc i) (take j pool @ drop (Suc j) pool) k)
        \<subseteq># mset (take j pool @ drop (Suc j) pool)"
      by (rule Suc.IH)
    then show ?thesis using False split by (simp add: Let_def j_def[symmetric])
  qed
qed

lemma accepted_ids_set:
  "accepted_ids ACCEPTED m = Inr ids \<Longrightarrow>
   set ids = {i. \<exists>k r. (k, r) \<in> set m \<and> status r = Some ACCEPTED \<and> rec_id r = Some i}"
proof (induction m arbitrary: ids)
  case Nil
  then show ?case by simp
next
  case (Cons x m)
  obtain k v where x: "x = (k, v)" by (cases x)
  from Cons.prems obtain s where s: "status v = Some s"
    by (cases "status v") (auto simp: x)
  show ?case
  proof (cases "s = ACCEPTED")
    case True
    from Cons.prems True s obtain i0 where i0: "rec_id v = Some i0"
      by (cases "rec_id v") (auto simp: x)
    from Cons.prems True s i0 obtain ids' where
      ids': "accepted_ids ACCEPTED m = Inr ids'" and ids: "ids = i0 # ids'"
      by (cases "accepted_ids ACCEPTED m") (auto simp: x)
    have "set ids' = {i. \<exists>k r. (k, r) \<in> set m \<and> status r = Some ACCEPTED \<and> rec_id r = Some i}"
      by (rule Cons.IH[OF ids'])
    then show ?thesis using True s i0 by (auto simp: ids x)
  next
    case False
    then have "accepted_ids ACCEPTED m = Inr ids" using Cons.prems s by (simp add: x)
    then have "set ids = {i. \<exists>k r. (k, r) \<in> set m \<and> status r = Some ACCEPTED \<and> rec_id r = Some i}"
      by (rule Cons.IH)
    then show ?thesis using False s by (auto simp: x)
  qed
qed

lemma accepted_ids_error:
  "accepted_ids ACCEPTED m = Inl e \<Longrightarrow> e = KeyError ''status'' \<or> e = KeyError ''_id''"
proof (induction m)
  case Nil
  then show ?case by simp
next
  case (Cons x m)
  obtain k v where x: "x = (k, v)" by (cases x)
  from Cons show ?case
    by (auto simp: x split: option.splits if_splits sum.splits)
qed

lemma accepted_ids_ok:
  assumes "\<And>k r. (k, r) \<in> set m \<Longrightarrow>
      status r \<noteq> None \<and> (status r = Some ACCEPTED \<longrightarrow> rec_id r \<noteq> None)"
  shows "\<exists>ids. accepted_ids ACCEPTED m = Inr ids"
  using assms
proof (induction m)
  case Nil
  then show ?case by simp
next
  case (Cons x m)
  obtain k v where x: "x = (k, v)" by (cases x)
  have "\<exists>ids. accepted_ids ACCEPTED m = Inr ids"
    using Cons by auto
  moreover have "status v \<noteq> None" "status v = Some ACCEPTED \<longrightarrow> rec_id v \<noteq> None"
    using Cons.prems[of k v] by (auto simp: x)
  ultimately show ?case by (auto simp: x)
qed

subsection \<open>The handler from its parts\<close>

lemma recommend_body_eq:
  assumes "userprofile u = Some profile"
    and "weak_field_scan VeryHigh profile = Inr st"
    and "get_user_solved_problems ACCEPTED u = Inr solved"
  shows "recommend_body VeryHigh ACCEPTED ser rng catalog u =
    Inr \<lparr>data_field_score = field_score (profile_obj st),
         recommend_problems = map ser
           (sample_loop rng 0 (unresolved_problems catalog (weak_field st) solved)
              (min 3 (length (unresolved_problems catalog (weak_field st) solved))))\<rparr>"
  using assms
  by (simp add: recommend_body_def objects_get_profile random_sample_def Let_def)

lemma recommend_body_Inr:
  assumes "recommend_body VeryHigh ACCEPTED ser rng catalog u = Inr d"
  shows "\<exists>profile st solved. userprofile u = Some profile
      \<and> weak_field_scan VeryHigh profile = Inr st
      \<and> get_user_solved_problems ACCEPTED u = Inr solved"
  using assms
  by (auto simp: recommend_body_def Let_def split: sum.splits dest!: objects_get_Inr)

lemma get_Success:
  "AIRecommendProblemAPI_get VeryHigh ACCEPTED ser rng catalog u = Inr (Success d) \<longleftrightarrow>
   is_authenticated u \<and> recommend_body VeryHigh ACCEPTED ser rng catalog u = Inr d"
  by (auto simp: AIRecommendProblemAPI_get_def login_required_def split: sum.splits if_splits)

lemma accepted_ids_bad:
  assumes "(k, r) \<in> set m"
    and "status r = None \<or> (status r = Some ACCEPTED \<and> rec_id r = None)"
  shows "\<exists>e. accepted_ids ACCEPTED m = Inl e"
  using assms
proof (induction m)
  case Nil
  then show ?case by simp
next
  case (Cons x m)
  obtain k' v where x: "x = (k', v)" by (cases x)
  show ?case
  proof (cases "(k, r) = x")
    case True
    then have "v = r" by (simp add: x)
    then show ?thesis using Cons.prems(2)
      by (auto simp: x split: option.splits sum.splits)
  next
    case False
    then have "(k, r) \<in> set m" using Cons.prems(1) by simp
    then obtain e where "accepted_ids ACCEPTED m = Inl e"
      using Cons.IH Cons.prems(2) by blast
    then show ?thesis
      by (auto simp: x split: option.splits sum.splits)
  qed
qed

section \<open>Weak-field selection\<close>




section \<open>The recommendation handler\<close>

text \<open>The definitions a run of the handler on a concrete request unfolds.\<close>

lemmas handler_defs =
  AIRecommendProblemAPI_get_def login_required_def recommend_body_def UserProfile_objects_get_def
  weak_field_scan_def scan_step_def getitem_def get_user_solved_problems_def
  get_or_empty_def unresolved_problems_def random_sample_def Let_def

subsection \<open>Capping\<close>

text \<open>
  Claim C4, as stated, fails: no new vector is made. The loop assigns
  \<^verbatim>\<open>field_score[k] = min(v, field_score['max_score'])\<close> into the dict of the fetched
  profile object, which held the raw 150 before the call and holds the capped 100, and
  the added key \<^verbatim>\<open>"max_score"\<close>, after it.
\<close>

theorem capping_counterexample:
  "field_score_after 5 \<lparr>acm_problems_status = \<lparr>problems = None, contest_problems = None\<rparr>,
       oi_problems_status = \<lparr>problems = None, contest_problems = None\<rparr>,
       field_score = [(''0'', 150)]\<rparr> = Inr [(''0'', 100), (''max_score'', 100)] \<and>
   field_score_after 5 \<lparr>acm_problems_status = \<lparr>problems = None, contest_problems = None\<rparr>,
       oi_problems_status = \<lparr>problems = None, contest_problems = None\<rparr>,
       field_score = [(''0'', 150)]\<rparr> \<noteq> Inr [(''0'', 150)]"
  by (simp add: field_score_after_def weak_field_scan_def scan_step_def getitem_def Let_def)

text \<open>
  Claim C4, amended. When the handler answers with data, its \<^verbatim>\<open>field_score\<close> is the
  vector of the fetched profile object as the scan left it, capped in place: the keys are
  those of the raw vector with \<^verbatim>\<open>"max_score"\<close> added, \<^verbatim>\<open>"max_score"\<close> holds the cap,
  every other key holds \<open>min raw cap\<close>, so every value is at most the cap and every
  field's value is at most its raw value.
\<close>

theorem capped_in_place:
  fixes VeryHigh :: int
  assumes ok: "AIRecommendProblemAPI_get VeryHigh ACCEPTED ser rng catalog u = Inr (Success d)"
    and prof: "userprofile u = Some profile"
  shows "field_score_after VeryHigh profile = Inr (data_field_score d) \<and>
     map fst (data_field_score d) =
       map fst (AList.update ''max_score'' (VeryHigh * 20) (field_score profile)) \<and>
     (\<forall>k. map_of (data_field_score d) k =
        (if k = ''max_score'' then Some (VeryHigh * 20)
         else map_option (\<lambda>v. min v (VeryHigh * 20)) (map_of (field_score profile) k))) \<and>
     (\<forall>k c. map_of (data_field_score d) k = Some c \<longrightarrow> c \<le> VeryHigh * 20) \<and>
     (\<forall>k v c. k \<noteq> ''max_score'' \<and> map_of (field_score profile) k = Some v \<and>
        map_of (data_field_score d) k = Some c \<longrightarrow> c \<le> v)"
proof -
  from ok have body: "recommend_body VeryHigh ACCEPTED ser rng catalog u = Inr d"
    by (simp add: get_Success)
  from recommend_body_Inr[OF body] prof obtain st solved where
    run: "weak_field_scan VeryHigh profile = Inr st"
    and solved: "get_user_solved_problems ACCEPTED u = Inr solved"
    by auto
  have dfs: "data_field_score d = field_score (profile_obj st)"
    using body recommend_body_eq[OF prof run solved, of ser rng catalog] by auto
  obtain raw where zero: "map_of (field_score profile) ''0'' = Some raw"
    using run weak_field_scan_KeyError[of profile VeryHigh]
    by (cases "map_of (field_score profile) ''0''") auto
  from weak_field_scan_run[OF zero, of VeryHigh] run have
    ks: "map fst (field_score (profile_obj st)) =
       map fst (AList.update ''max_score'' (VeryHigh * 20) (field_score profile))"
    and vs: "\<forall>k. map_of (field_score (profile_obj st)) k =
            (if k = ''max_score'' then Some (VeryHigh * 20)
             else map_option (\<lambda>v. min v (VeryHigh * 20)) (map_of (field_score profile) k))"
    by auto
  have a: "field_score_after VeryHigh profile = Inr (data_field_score d)"
    by (simp add: field_score_after_def run dfs)
  have ks': "map fst (data_field_score d) =
       map fst (AList.update ''max_score'' (VeryHigh * 20) (field_score profile))"
    unfolding dfs by (rule ks)
  have vs': "\<forall>k. map_of (data_field_score d) k =
        (if k = ''max_score'' then Some (VeryHigh * 20)
         else map_option (\<lambda>v. min v (VeryHigh * 20)) (map_of (field_score profile) k))"
    unfolding dfs by (rule vs)
  have b: "\<forall>k c. map_of (data_field_score d) k = Some c \<longrightarrow> c \<le> VeryHigh * 20"
  proof (intro allI impI)
    fix k c assume "map_of (data_field_score d) k = Some c"
    then have "(if k = ''max_score'' then Some (VeryHigh * 20)
         else map_option (\<lambda>v. min v (VeryHigh * 20)) (map_of (field_score profile) k)) = Some c"
      using vs' by simp
    then show "c \<le> VeryHigh * 20"
      by (cases "k = ''max_score''") auto
  qed
  have c: "\<forall>k v c. k \<noteq> ''max_score'' \<and> map_of (field_score profile) k = Some v \<and>
        map_of (data_field_score d) k = Some c \<longrightarrow> c \<le> v"
  proof (intro allI impI)
    fix k v c
    assume h: "k \<noteq> ''max_score'' \<and> map_of (field_score profile) k = Some v \<and>
        map_of (data_field_score d) k = Some c"
    then have "map_of (data_field_score d) k = Some (min v (VeryHigh * 20))"
      using vs' by simp
    then show "c \<le> v" using h by simp
  qed
  from a ks' vs' b c show ?thesis by (intro conjI)
qed

theorem capped_in_place_witness:
  "field_score_after 5 \<lparr>acm_problems_status = \<lparr>problems = None, contest_problems = None\<rparr>,
       oi_problems_status = \<lparr>problems = None, contest_problems = None\<rparr>,
       field_score = [(''0'', 150), (''1'', 30)]\<rparr>
     = Inr [(''0'', 100), (''1'', 30), (''max_score'', 100)]"
proof -
  have ev: "AIRecommendProblemAPI_get 5 0 (\<lambda>p. p) (\<lambda>i. 0) []
      (User (Some \<lparr>acm_problems_status = \<lparr>problems = None, contest_problems = None\<rparr>,
         oi_problems_status = \<lparr>problems = None, contest_problems = None\<rparr>,
         field_score = [(''0'', 150), (''1'', 30)]\<rparr>))
    = Inr (Success \<lparr>data_field_score = [(''0'', 100), (''1'', 30), (''max_score'', 100)],
                     recommend_problems = []\<rparr>)"
    by (simp add: handler_defs)
  show ?thesis
    using capped_in_place [OF ev, of "\<lparr>acm_problems_status = \<lparr>problems = None, contest_problems = None\<rparr>,
         oi_problems_status = \<lparr>problems = None, contest_problems = None\<rparr>,
         field_score = [(''0'', 150), (''1'', 30)]\<rparr>"]
    by simp
qed

subsection \<open>Errors\<close>

text \<open>
  Claim C6, as stated, fails: a profile whose vector has no key \<^verbatim>\<open>"0"\<close> makes line 153
  raise \<^verbatim>\<open>KeyError\<close>, which the handler does not catch.
\<close>

theorem missing_field_counterexample:
  "AIRecommendProblemAPI_get 5 0 (\<lambda>p. p) (\<lambda>i. 0) []
      (User (Some \<lparr>acm_problems_status = \<lparr>problems = None, contest_problems = None\<rparr>,
         oi_problems_status = \<lparr>problems = None, contest_problems = None\<rparr>,
         field_score = [(''1'', 30)]\<rparr>))
    = Inl (KeyError ''0'')"
  by (simp add: handler_defs)

text \<open>
  Claim C6, amended. For an authenticated user the handler answers as follows. Without a
  profile it answers not-found, with no data. With a profile whose vector has no key
  \<^verbatim>\<open>"0"\<close> the \<^verbatim>\<open>KeyError\<close> of line 153 leaves it. With a profile whose vector has the
  key \<^verbatim>\<open>"0"\<close> it answers with data, whatever the catalog holds, when every entry of the
  global ACM progress map has a \<^verbatim>\<open>"status"\<close> and every accepted one an \<^verbatim>\<open>"_id"\<close>;
  otherwise the \<^verbatim>\<open>KeyError\<close> of one of these two subscripts leaves it. So it answers
  not-found only without a profile, and no other exception leaves it.
\<close>

theorem profile_not_found:
  fixes VeryHigh :: int
  shows "(is_authenticated u \<and> userprofile u = None \<longrightarrow>
       AIRecommendProblemAPI_get VeryHigh ACCEPTED ser rng catalog u =
         Inr (HttpResponseNotFound ''User does not exist'')) \<and>
     (\<forall>profile. userprofile u = Some profile \<longrightarrow>
        (if ''0'' \<notin> fst ` set (field_score profile)
         then AIRecommendProblemAPI_get VeryHigh ACCEPTED ser rng catalog u = Inl (KeyError ''0'')
         else if (\<forall>(k, r) \<in> set (get_or_empty (problems (acm_problems_status profile))).
                    status r \<noteq> None \<and> (status r = Some ACCEPTED \<longrightarrow> rec_id r \<noteq> None))
         then (\<exists>d. AIRecommendProblemAPI_get VeryHigh ACCEPTED ser rng catalog u = Inr (Success d))
         else AIRecommendProblemAPI_get VeryHigh ACCEPTED ser rng catalog u = Inl (KeyError ''status'')
            \<or> AIRecommendProblemAPI_get VeryHigh ACCEPTED ser rng catalog u = Inl (KeyError ''_id''))) \<and>
     (\<forall>s. is_authenticated u \<and>
          AIRecommendProblemAPI_get VeryHigh ACCEPTED ser rng catalog u =
            Inr (HttpResponseNotFound s) \<longrightarrow> userprofile u = None) \<and>
     (\<forall>e. is_authenticated u \<and>
          AIRecommendProblemAPI_get VeryHigh ACCEPTED ser rng catalog u = Inl e \<longrightarrow>
          e = KeyError ''0'' \<or> e = KeyError ''status'' \<or> e = KeyError ''_id'')"
proof -
  let ?get = "AIRecommendProblemAPI_get VeryHigh ACCEPTED ser rng catalog u"
  have none: "?get = Inr (HttpResponseNotFound ''User does not exist'')"
    if "is_authenticated u" "userprofile u = None"
    using that
    by (simp add: AIRecommendProblemAPI_get_def login_required_def recommend_body_def objects_get_None)
  have some: "(if ''0'' \<notin> fst ` set (field_score profile)
         then ?get = Inl (KeyError ''0'')
         else if (\<forall>(k, r) \<in> set (get_or_empty (problems (acm_problems_status profile))).
                    status r \<noteq> None \<and> (status r = Some ACCEPTED \<longrightarrow> rec_id r \<noteq> None))
         then (\<exists>d. ?get = Inr (Success d))
         else ?get = Inl (KeyError ''status'') \<or> ?get = Inl (KeyError ''_id''))"
    if prof: "userprofile u = Some profile" for profile
  proof -
    have auth: "is_authenticated u" by (rule profile_authenticated[OF prof])
    let ?m = "get_or_empty (problems (acm_problems_status profile))"
    show ?thesis
    proof (cases "''0'' \<in> fst ` set (field_score profile)")
      case False
      then have "map_of (field_score profile) ''0'' = None"
        by (simp add: map_of_eq_None_iff)
      then have "weak_field_scan VeryHigh profile = Inl (KeyError ''0'')"
        by (rule weak_field_scan_KeyError)
      then have g: "?get = Inl (KeyError ''0'')"
        using auth
        by (simp add: AIRecommendProblemAPI_get_def login_required_def recommend_body_def objects_get_profile[OF prof])
      show ?thesis unfolding if_P[OF False] by (rule g)
    next
      case True
      then obtain raw where zero: "map_of (field_score profile) ''0'' = Some raw"
        by (metis domD dom_map_of_conv_image_fst)
      have nz: "\<not> (''0'' \<notin> fst ` set (field_score profile))" using True by simp
      from weak_field_scan_run[OF zero, of VeryHigh] obtain st where
        run: "weak_field_scan VeryHigh profile = Inr st" by blast
      show ?thesis
      proof (cases "\<forall>(k, r) \<in> set ?m.
                    status r \<noteq> None \<and> (status r = Some ACCEPTED \<longrightarrow> rec_id r \<noteq> None)")
        case wf: True
        then have "\<exists>ids. accepted_ids ACCEPTED ?m = Inr ids"
          by (intro accepted_ids_ok) auto
        then obtain solved where solved: "get_user_solved_problems ACCEPTED u = Inr solved"
          by (auto simp: get_user_solved_problems_def objects_get_profile[OF prof])
        have g: "\<exists>d. ?get = Inr (Success d)"
          using recommend_body_eq[OF prof run solved, of ser rng catalog] auth
          by (simp add: get_Success)
        show ?thesis unfolding if_not_P[OF nz] if_P[OF wf] by (rule g)
      next
        case bad: False
        then obtain x where xm: "x \<in> set ?m"
          and nx: "\<not> (case x of (k, r) \<Rightarrow>
                status r \<noteq> None \<and> (status r = Some ACCEPTED \<longrightarrow> rec_id r \<noteq> None))"
          by blast
        obtain k r where x: "x = (k, r)" by (cases x)
        have kr: "(k, r) \<in> set ?m" using xm by (simp add: x)
        have "\<not> (status r \<noteq> None \<and> (status r = Some ACCEPTED \<longrightarrow> rec_id r \<noteq> None))"
          using nx by (simp add: x)
        then have b: "status r = None \<or> (status r = Some ACCEPTED \<and> rec_id r = None)"
          by blast
        from accepted_ids_bad[OF kr b] obtain e where e: "accepted_ids ACCEPTED ?m = Inl e"
          by blast
        have kinds: "e = KeyError ''status'' \<or> e = KeyError ''_id''"
          by (rule accepted_ids_error[OF e])
        have "get_user_solved_problems ACCEPTED u = Inl e"
          using e by (simp add: get_user_solved_problems_def objects_get_profile[OF prof])
        then have "recommend_body VeryHigh ACCEPTED ser rng catalog u = Inl e"
          by (simp add: recommend_body_def objects_get_profile[OF prof] run)
        then have "?get = Inl e"
          using auth kinds by (auto simp: AIRecommendProblemAPI_get_def login_required_def)
        then have g: "?get = Inl (KeyError ''status'') \<or> ?get = Inl (KeyError ''_id'')"
          using kinds by auto
        show ?thesis unfolding if_not_P[OF nz] if_not_P[OF bad] by (rule g)
      qed
    qed
  qed
  have c1: "is_authenticated u \<and> userprofile u = None \<longrightarrow>
       ?get = Inr (HttpResponseNotFound ''User does not exist'')"
    using none by blast
  have c2: "\<forall>profile. userprofile u = Some profile \<longrightarrow>
        (if ''0'' \<notin> fst ` set (field_score profile)
         then ?get = Inl (KeyError ''0'')
         else if (\<forall>(k, r) \<in> set (get_or_empty (problems (acm_problems_status profile))).
                    status r \<noteq> None \<and> (status r = Some ACCEPTED \<longrightarrow> rec_id r \<noteq> None))
         then (\<exists>d. ?get = Inr (Success d))
         else ?get = Inl (KeyError ''status'') \<or> ?get = Inl (KeyError ''_id''))"
    using some by blast
  have c3: "\<forall>s. is_authenticated u \<and> ?get = Inr (HttpResponseNotFound s) \<longrightarrow> userprofile u = None"
  proof (intro allI impI)
    fix s assume h: "is_authenticated u \<and> ?get = Inr (HttpResponseNotFound s)"
    show "userprofile u = None"
    proof (cases "userprofile u")
      case None
      then show ?thesis .
    next
      case (Some profile)
      from some[OF Some] h show ?thesis
        by (auto split: if_splits)
    qed
  qed
  have c4: "\<forall>e. is_authenticated u \<and> ?get = Inl e \<longrightarrow>
          e = KeyError ''0'' \<or> e = KeyError ''status'' \<or> e = KeyError ''_id''"
  proof (intro allI impI)
    fix e assume h: "is_authenticated u \<and> ?get = Inl e"
    show "e = KeyError ''0'' \<or> e = KeyError ''status'' \<or> e = KeyError ''_id''"
    proof (cases "userprofile u")
      case None
      then show ?thesis using none h by simp
    next
      case (Some profile)
      from some[OF Some] h show ?thesis
        by (auto split: if_splits)
    qed
  qed
  from c1 c2 c3 c4 show ?thesis by (intro conjI)
qed

theorem profile_not_found_witness:
  "AIRecommendProblemAPI_get 5 0 (\<lambda>p. p) (\<lambda>i. 0) [] (User None)
     = Inr (HttpResponseNotFound ''User does not exist'') \<and>
   (\<exists>d. AIRecommendProblemAPI_get 5 0 (\<lambda>p. p) (\<lambda>i. 0) []
      (User (Some \<lparr>acm_problems_status =
           \<lparr>problems = Some [(''3'', \<lparr>rec_id = Some ''P3'', status = Some 0\<rparr>),
                             (''4'', \<lparr>rec_id = None, status = Some 6\<rparr>)],
            contest_problems = None\<rparr>,
         oi_problems_status = \<lparr>problems = None, contest_problems = None\<rparr>,
         field_score = [(''0'', 40)]\<rparr>)) = Inr (Success d)) \<and>
   (AIRecommendProblemAPI_get 5 0 (\<lambda>p. p) (\<lambda>i. 0) []
      (User (Some \<lparr>acm_problems_status =
           \<lparr>problems = Some [(''3'', \<lparr>rec_id = None, status = Some 0\<rparr>)],
            contest_problems = None\<rparr>,
         oi_problems_status = \<lparr>problems = None, contest_problems = None\<rparr>,
         field_score = [(''0'', 40)]\<rparr>)) = Inl (KeyError ''status'') \<or>
    AIRecommendProblemAPI_get 5 0 (\<lambda>p. p) (\<lambda>i. 0) []
      (User (Some \<lparr>acm_problems_status =
           \<lparr>problems = Some [(''3'', \<lparr>rec_id = None, status = Some 0\<rparr>)],
            contest_problems = None\<rparr>,
         oi_problems_status = \<lparr>problems = None, contest_problems = None\<rparr>,
         field_score = [(''0'', 40)]\<rparr>)) = Inl (KeyError ''_id''))"
  using profile_not_found [where VeryHigh = 5 and ACCEPTED = 0 and ser = "\<lambda>p. p"
      and rng = "\<lambda>i. 0" and catalog = "[]" and u = "User None"]
    profile_not_found [where VeryHigh = 5 and ACCEPTED = 0 and ser = "\<lambda>p. p"
      and rng = "\<lambda>i. 0" and catalog = "[]"
      and u = "User (Some \<lparr>acm_problems_status =
           \<lparr>problems = Some [(''3'', \<lparr>rec_id = Some ''P3'', status = Some 0\<rparr>),
                             (''4'', \<lparr>rec_id = None, status = Some 6\<rparr>)],
            contest_problems = None\<rparr>,
         oi_problems_status = \<lparr>problems = None, contest_problems = None\<rparr>,
         field_score = [(''0'', 40)]\<rparr>)"]
    profile_not_found [where VeryHigh = 5 and ACCEPTED = 0 and ser = "\<lambda>p. p"
      and rng = "\<lambda>i. 0" and catalog = "[]"
      and u = "User (Some \<lparr>acm_problems_status =
           \<lparr>problems = Some [(''3'', \<lparr>rec_id = None, status = Some 0\<rparr>)],
            contest_problems = None\<rparr>,
         oi_problems_status = \<lparr>problems = None, contest_problems = None\<rparr>,
         field_score = [(''0'', 40)]\<rparr>)"]
  by (simp add: get_or_empty_def)

subsection \<open>Solved problems are left out\<close>

text \<open>
  Claim C7. When the handler answers with data, the recommended problems are the
  serialised forms of catalog rows none of which has an id of the solved list; and every
  id that an entry of the user's global ACM progress map marks accepted is in that list.
\<close>

theorem solved_never_recommended:
  fixes VeryHigh :: int
  assumes ok: "AIRecommendProblemAPI_get VeryHigh ACCEPTED ser rng catalog u = Inr (Success d)"
    and prof: "userprofile u = Some profile"
    and entry: "(k, r) \<in> set (get_or_empty (problems (acm_problems_status profile)))"
    and acc: "status r = Some ACCEPTED"
    and rid: "rec_id r = Some i"
  shows "\<exists>solved ps. get_user_solved_problems ACCEPTED u = Inr solved \<and> i \<in> set solved \<and>
      recommend_problems d = map ser ps \<and> set ps \<subseteq> set catalog \<and>
      (\<forall>p \<in> set ps. display_id p \<notin> set solved)"
proof -
  from ok have body: "recommend_body VeryHigh ACCEPTED ser rng catalog u = Inr d"
    by (simp add: get_Success)
  from recommend_body_Inr[OF body] prof obtain st solved where
    run: "weak_field_scan VeryHigh profile = Inr st"
    and solved: "get_user_solved_problems ACCEPTED u = Inr solved"
    by auto
  define U where "U = unresolved_problems catalog (weak_field st) solved"
  define ps where "ps = sample_loop rng 0 U (min 3 (length U))"
  have d: "recommend_problems d = map ser ps"
    using body recommend_body_eq[OF prof run solved, of ser rng catalog]
    by (auto simp: ps_def U_def)
  have "accepted_ids ACCEPTED (get_or_empty (problems (acm_problems_status profile))) = Inr solved"
    using solved prof by (simp add: get_user_solved_problems_def objects_get_profile)
  from accepted_ids_set[OF this] have i: "i \<in> set solved"
    using entry acc rid by auto
  have "set ps \<subseteq> set U"
    using set_mset_mono[OF mset_sample_loop[of rng 0 U "min 3 (length U)"]] by (simp add: ps_def)
  moreover have "set U \<subseteq> set catalog" "\<forall>p \<in> set U. display_id p \<notin> set solved"
    by (auto simp: U_def unresolved_problems_def)
  ultimately have "set ps \<subseteq> set catalog" "\<forall>p \<in> set ps. display_id p \<notin> set solved"
    by auto
  then show ?thesis using solved i d by blast
qed

theorem solved_never_recommended_witness:
  "\<exists>solved ps. get_user_solved_problems 0
      (User (Some \<lparr>acm_problems_status =
           \<lparr>problems = Some [(''3'', \<lparr>rec_id = Some ''P1'', status = Some 0\<rparr>)],
            contest_problems = None\<rparr>,
         oi_problems_status = \<lparr>problems = None, contest_problems = None\<rparr>,
         field_score = [(''0'', 40), (''1'', 10), (''2'', 90)]\<rparr>)) = Inr solved \<and>
     ''P1'' \<in> set solved \<and>
     [\<lparr>display_id = ''P2'', field = ''1'', visible = True, contest_id = None\<rparr>] = map (\<lambda>p. p) ps \<and>
     set ps \<subseteq> set [\<lparr>display_id = ''P1'', field = ''1'', visible = True, contest_id = None\<rparr>,
                     \<lparr>display_id = ''P2'', field = ''1'', visible = True, contest_id = None\<rparr>] \<and>
     (\<forall>p. p \<in> set ps \<longrightarrow> display_id p \<notin> set solved)"
proof -
  have ev: "AIRecommendProblemAPI_get 5 0 (\<lambda>p. p) (\<lambda>i. 0)
      [\<lparr>display_id = ''P1'', field = ''1'', visible = True, contest_id = None\<rparr>,
       \<lparr>display_id = ''P2'', field = ''1'', visible = True, contest_id = None\<rparr>]
      (User (Some \<lparr>acm_problems_status =
           \<lparr>problems = Some [(''3'', \<lparr>rec_id = Some ''P1'', status = Some 0\<rparr>)],
            contest_problems = None\<rparr>,
         oi_problems_status = \<lparr>problems = None, contest_problems = None\<rparr>,
         field_score = [(''0'', 40), (''1'', 10), (''2'', 90)]\<rparr>))
    = Inr (Success \<lparr>data_field_score = [(''0'', 40), (''1'', 10), (''2'', 90), (''max_score'', 100)],
         recommend_problems = [\<lparr>display_id = ''P2'', field = ''1'', visible = True, contest_id = None\<rparr>]\<rparr>)"
    by (simp add: handler_defs)
  show ?thesis
    using solved_never_recommended [OF ev, where k = "''3''" and i = "''P1''"
        and r = "\<lparr>rec_id = Some ''P1'', status = Some 0\<rparr>"
        and profile = "\<lparr>acm_problems_status =
           \<lparr>problems = Some [(''3'', \<lparr>rec_id = Some ''P1'', status = Some 0\<rparr>)],
            contest_problems = None\<rparr>,
         oi_problems_status = \<lparr>problems = None, contest_problems = None\<rparr>,
         field_score = [(''0'', 40), (''1'', 10), (''2'', 90)]\<rparr>"]
    by (simp add: get_or_empty_def Ball_def)
qed

subsection \<open>The size of the sample\<close>

text \<open>
  Claim C8. Once the profile is found, the scan has ended and the solved list is read, the
  handler answers with data, for every catalog and every random source: the recommended
  problems are the serialised forms of a sample of the unresolved problems drawn without
  replacement (a sub-multiset), exactly \<open>min 3 n\<close> of them for \<open>n\<close> unresolved problems,
  so at most 3, and none, without an error, when there is no unresolved problem. The
  sample size is the constant 3 of line 163.
\<close>

theorem sample_size:
  fixes VeryHigh :: int
  assumes prof: "userprofile u = Some profile"
    and run: "weak_field_scan VeryHigh profile = Inr st"
    and solved: "get_user_solved_problems ACCEPTED u = Inr solved"
  shows "\<exists>d ps. AIRecommendProblemAPI_get VeryHigh ACCEPTED ser rng catalog u = Inr (Success d) \<and>
      recommend_problems d = map ser ps \<and>
      mset ps \<subseteq># mset (unresolved_problems catalog (weak_field st) solved) \<and>
      length (recommend_problems d) =
        min 3 (length (unresolved_problems catalog (weak_field st) solved)) \<and>
      length (recommend_problems d) \<le> 3 \<and>
      (unresolved_problems catalog (weak_field st) solved = [] \<longrightarrow> recommend_problems d = [])"
proof -
  define U where "U = unresolved_problems catalog (weak_field st) solved"
  define ps where "ps = sample_loop rng 0 U (min 3 (length U))"
  define d where "d = \<lparr>data_field_score = field_score (profile_obj st),
      recommend_problems = map ser ps\<rparr>"
  have "AIRecommendProblemAPI_get VeryHigh ACCEPTED ser rng catalog u = Inr (Success d)"
    using recommend_body_eq[OF prof run solved, of ser rng catalog]
    by (simp add: get_Success profile_authenticated[OF prof] d_def ps_def U_def)
  moreover have "recommend_problems d = map ser ps" by (simp add: d_def)
  moreover have "mset ps \<subseteq># mset U" by (simp add: ps_def mset_sample_loop)
  moreover have len: "length (recommend_problems d) = min 3 (length U)"
    by (simp add: d_def ps_def length_sample_loop)
  moreover have "length (recommend_problems d) \<le> 3" using len by simp
  moreover have "U = [] \<longrightarrow> recommend_problems d = []" using len by auto
  ultimately show ?thesis unfolding U_def by blast
qed

theorem sample_size_witness:
  "(\<exists>d ps. AIRecommendProblemAPI_get 5 0 (\<lambda>p. p) (\<lambda>i. i)
        [\<lparr>display_id = ''P1'', field = ''1'', visible = True, contest_id = None\<rparr>,
         \<lparr>display_id = ''P2'', field = ''1'', visible = True, contest_id = None\<rparr>,
         \<lparr>display_id = ''P3'', field = ''1'', visible = True, contest_id = None\<rparr>,
         \<lparr>display_id = ''P4'', field = ''1'', visible = True, contest_id = None\<rparr>,
         \<lparr>display_id = ''P5'', field = ''2'', visible = True, contest_id = None\<rparr>]
        (User (Some \<lparr>acm_problems_status = \<lparr>problems = None, contest_problems = None\<rparr>,
           oi_problems_status = \<lparr>problems = None, contest_problems = None\<rparr>,
           field_score = [(''0'', 40), (''1'', 10), (''2'', 90)]\<rparr>)) = Inr (Success d) \<and>
      recommend_problems d = map (\<lambda>p. p) ps \<and> length (recommend_problems d) = 3) \<and>
   (\<exists>d ps. AIRecommendProblemAPI_get 5 0 (\<lambda>p. p) (\<lambda>i. i)
        [\<lparr>display_id = ''P5'', field = ''2'', visible = True, contest_id = None\<rparr>]
        (User (Some \<lparr>acm_problems_status = \<lparr>problems = None, contest_problems = None\<rparr>,
           oi_problems_status = \<lparr>problems = None, contest_problems = None\<rparr>,
           field_score = [(''0'', 40), (''1'', 10), (''2'', 90)]\<rparr>)) = Inr (Success d) \<and>
      recommend_problems d = map (\<lambda>p. p) ps \<and> recommend_problems d = [])"
proof -
  let ?P = "\<lparr>acm_problems_status = \<lparr>problems = None, contest_problems = None\<rparr>,
           oi_problems_status = \<lparr>problems = None, contest_problems = None\<rparr>,
           field_score = [(''0'', 40), (''1'', 10), (''2'', 90)]\<rparr>"
  let ?st = "\<lparr>profile_obj = ?P\<lparr>field_score := [(''0'', 40), (''1'', 10), (''2'', 90), (''max_score'', 100)]\<rparr>,
      weak_field = StrField ''1'', weak_field_score = 10\<rparr>"
  have run: "weak_field_scan 5 ?P = Inr ?st"
    by (simp add: weak_field_scan_def scan_step_def getitem_def Let_def)
  have solved: "get_user_solved_problems 0 (User (Some ?P)) = Inr []"
    by (simp add: get_user_solved_problems_def UserProfile_objects_get_def get_or_empty_def)
  have prof: "userprofile (User (Some ?P)) = Some ?P" by simp
  show ?thesis
    using sample_size [OF prof run solved, where ser = "\<lambda>p. p" and rng = "\<lambda>i. i" and catalog =
        "[\<lparr>display_id = ''P1'', field = ''1'', visible = True, contest_id = None\<rparr>,
         \<lparr>display_id = ''P2'', field = ''1'', visible = True, contest_id = None\<rparr>,
         \<lparr>display_id = ''P3'', field = ''1'', visible = True, contest_id = None\<rparr>,
         \<lparr>display_id = ''P4'', field = ''1'', visible = True, contest_id = None\<rparr>,
         \<lparr>display_id = ''P5'', field = ''2'', visible = True, contest_id = None\<rparr>]"]
      sample_size [OF prof run solved, where ser = "\<lambda>p. p" and rng = "\<lambda>i. i" and catalog =
        "[\<lparr>display_id = ''P5'', field = ''2'', visible = True, contest_id = None\<rparr>]"]
    by (simp add: unresolved_problems_def) (auto simp: numeral_3_eq_3)
qed

subsection \<open>The candidate pool\<close>

text \<open>
  Claim C2: the handler on a catalog whose only problem of the weak field is visible and
  belongs to contest 7. The query of line 161 filters on \<^verbatim>\<open>field\<close> and \<^verbatim>\<open>visible\<close>
  only, so the contest problem is recommended.
\<close>

theorem contest_problem_recommended:
  "AIRecommendProblemAPI_get 5 0 (\<lambda>p. p) (\<lambda>i. 0)
      [\<lparr>display_id = ''C1'', field = ''0'', visible = True, contest_id = Some 7\<rparr>]
      (User (Some \<lparr>acm_problems_status = \<lparr>problems = None, contest_problems = None\<rparr>,
         oi_problems_status = \<lparr>problems = None, contest_problems = None\<rparr>,
         field_score = [(''0'', 10), (''1'', 40)]\<rparr>))
    = Inr (Success \<lparr>data_field_score = [(''0'', 10), (''1'', 40), (''max_score'', 100)],
         recommend_problems =
           [\<lparr>display_id = ''C1'', field = ''0'', visible = True, contest_id = Some 7\<rparr>]\<rparr>)"
  by (simp add: handler_defs str_0)

subsection \<open>The entry \<^verbatim>\<open>max_score\<close>\<close>



end
